theory Spec2Isabelle
  imports Complex_Main
begin

section \<open>Shared data: errors and configuration constants\<close>

text \<open>
  Every failure object of the services has the shape
  \<^verbatim>\<open>{ type, message, retryAfterSeconds? }\<close>. The field \<^verbatim>\<open>type\<close> is a string in the source and
  stays one here.
\<close>

record error_info =
  etype :: string
  message :: string
  retryAfterSeconds :: "nat option"

definition mk_error :: "string \<Rightarrow> string \<Rightarrow> error_info" where
  "mk_error t m = \<lparr>etype = t, message = m, retryAfterSeconds = None\<rparr>"

definition mk_error_retry :: "string \<Rightarrow> string \<Rightarrow> nat \<Rightarrow> error_info" where
  "mk_error_retry t m s = \<lparr>etype = t, message = m, retryAfterSeconds = Some s\<rparr>"

text \<open>\<^verbatim>\<open>config.js\<close>: \<^verbatim>\<open>API_CONFIG\<close> and \<^verbatim>\<open>UPLOAD_CONSTRAINTS\<close>.\<close>

definition OPENAI_MODEL :: string where
  "OPENAI_MODEL = ''gpt-4o''"

definition MAX_TOKENS :: nat where
  "MAX_TOKENS = 300"

definition TEMPERATURE :: rat where
  "TEMPERATURE = 9 / 10"

definition MAX_FILE_SIZE_BYTES :: nat where
  "MAX_FILE_SIZE_BYTES = 5 * 1024 * 1024"

definition SUPPORTED_FORMATS :: "string list" where
  "SUPPORTED_FORMATS = [''image/jpeg'', ''image/png'', ''image/gif'', ''image/webp'']"

section \<open>\<^verbatim>\<open>fileValidator.js\<close>\<close>

text \<open>
  The file object as \<^verbatim>\<open>validateFile\<close> inspects it. \<open>fname\<close> is \<^verbatim>\<open>name\<close> as an own
  property: it is \<open>None\<close> when \<^verbatim>\<open>hasOwnProperty('name')\<close> is false, which is so for an
  object without a name and also for a \<^verbatim>\<open>File\<close> of the browser, which inherits \<^verbatim>\<open>name\<close>
  as an accessor of \<^verbatim>\<open>File.prototype\<close> (the \<^verbatim>\<open>File\<close> mock of the test setup assigns
  \<^verbatim>\<open>this.name\<close>, an own property). \<open>fsize\<close> is \<^verbatim>\<open>size\<close> when it is a number (a byte
  count, so a natural number) and \<open>ftype\<close> is \<^verbatim>\<open>type\<close> when it is a string, \<open>None\<close>
  otherwise. \<open>header_read\<close> is what happens
  when \<^verbatim>\<open>validateFileHeaders\<close> reads the first four bytes through a \<^verbatim>\<open>FileReader\<close>: the
  reader fires \<^verbatim>\<open>onload\<close>, fires \<^verbatim>\<open>onerror\<close>, or the call \<^verbatim>\<open>file.slice(0, 4)\<close> /
  \<^verbatim>\<open>readAsArrayBuffer\<close> throws inside the promise executor (the object is no Blob), which
  rejects the promise. A \<^verbatim>\<open>null\<close> or \<^verbatim>\<open>undefined\<close> argument is \<open>None :: file_obj option\<close>;
  a truthy argument that is no object has none of the three properties.
\<close>

datatype read_outcome = Loaded | ReadError | ReadThrows

record file_obj =
  fname :: "string option"
  fsize :: "nat option"
  ftype :: "string option"
  header_read :: read_outcome

text \<open>
  A validation result is \<^verbatim>\<open>{ isValid: true, ... }\<close> or \<^verbatim>\<open>{ isValid: false, error }\<close>. The
  extra fields of the successful result of \<^verbatim>\<open>validateFile\<close> (\<^verbatim>\<open>sanitizedName\<close>,
  \<^verbatim>\<open>fileInfo\<close>) play no part below and are left out.
\<close>

datatype validation = Valid | Invalid error_info

fun isValid :: "validation \<Rightarrow> bool" where
  "isValid Valid = True"
| "isValid (Invalid e) = False"

fun error_type :: "validation \<Rightarrow> string option" where
  "error_type Valid = None"
| "error_type (Invalid e) = Some (etype e)"

definition validateFileSize :: "file_obj option \<Rightarrow> validation" where
  "validateFileSize f =
     (case f of
        None \<Rightarrow> Invalid (mk_error ''file_invalid'' ''File is empty or corrupted'')
      | Some file \<Rightarrow>
          if fsize file = Some 0
          then Invalid (mk_error ''file_invalid'' ''File is empty or corrupted'')
          else if (case fsize file of None \<Rightarrow> False | Some n \<Rightarrow> n > MAX_FILE_SIZE_BYTES)
          then Invalid (mk_error ''file_size''
                  ''File size exceeds 5MB limit. Please choose a smaller image.'')
          else Valid)"

definition validateFileFormat :: "file_obj option \<Rightarrow> validation" where
  "validateFileFormat f =
     (case f of
        None \<Rightarrow> Invalid (mk_error ''file_format''
                  ''Please upload JPEG, PNG, GIF, or WebP images only.'')
      | Some file \<Rightarrow>
          (case ftype file of
             None \<Rightarrow> Invalid (mk_error ''file_format''
                  ''Please upload JPEG, PNG, GIF, or WebP images only.'')
           | Some t \<Rightarrow>
               if t = []
               then Invalid (mk_error ''file_format''
                  ''Please upload JPEG, PNG, GIF, or WebP images only.'')
               else if t \<notin> set SUPPORTED_FORMATS
               then Invalid (mk_error ''file_format''
                  ''Please upload JPEG, PNG, GIF, or WebP images only.'')
               else Valid))"

definition checkMagicNumbers :: bool where
  "checkMagicNumbers = True"

text \<open>\<open>None\<close>: the promise returned by \<^verbatim>\<open>validateFileHeaders\<close> rejects.\<close>

definition validateFileHeaders :: "file_obj \<Rightarrow> validation option" where
  "validateFileHeaders file =
     (case header_read file of
        Loaded \<Rightarrow>
          Some (if checkMagicNumbers then Valid
                else Invalid (mk_error ''file_invalid'' ''File header does not match file type''))
      | ReadError \<Rightarrow> Some (Invalid (mk_error ''file_invalid'' ''Unable to read file header''))
      | ReadThrows \<Rightarrow> None)"

text \<open>
  \<^verbatim>\<open>validateFile\<close>: the checks run in the order of the source and the first failing one
  returns. \<open>None\<close>: the returned promise rejects.
\<close>

definition validateFile :: "file_obj option \<Rightarrow> validation option" where
  "validateFile f =
     (case f of
        None \<Rightarrow> Some (Invalid (mk_error ''missing_file'' ''No file provided''))
      | Some file \<Rightarrow>
          if fname file = None \<or> fsize file = None \<or> ftype file = None
          then Some (Invalid (mk_error ''file_invalid'' ''Invalid file object provided''))
          else if \<not> isValid (validateFileSize f) then Some (validateFileSize f)
          else if \<not> isValid (validateFileFormat f) then Some (validateFileFormat f)
          else (case validateFileHeaders file of
                  None \<Rightarrow> None
                | Some headerCheck \<Rightarrow>
                    if \<not> isValid headerCheck then Some headerCheck else Some Valid))"

section \<open>JavaScript values and strings\<close>

text \<open>
  Strings are lists of characters, a character being a code unit from 0 to 255 (the
  model covers the texts of Latin-1). \<open>str_includes\<close> is \<^verbatim>\<open>String.prototype.includes\<close>,
  \<open>startsWith\<close> is \<^verbatim>\<open>String.prototype.startsWith\<close>, \<open>trim\<close> removes the white space and the
  line terminators at both ends; among these code units they are tab, line feed, vertical
  tab, form feed, carriage return, space and the no-break space U+00A0.
\<close>

definition startsWith :: "string \<Rightarrow> string \<Rightarrow> bool" where
  "startsWith s p = (take (length p) s = p)"

fun str_includes :: "string \<Rightarrow> string \<Rightarrow> bool" where
  "str_includes [] p = (p = [])"
| "str_includes (c # cs) p = (startsWith (c # cs) p \<or> str_includes cs p)"

definition is_white_space :: "char \<Rightarrow> bool" where
  "is_white_space c =
     (c \<in> set [CHR 0x09, CHR 0x0A, CHR 0x0B, CHR 0x0C, CHR 0x0D, CHR 0x20, CHR 0xA0])"

definition trim :: "string \<Rightarrow> string" where
  "trim s = rev (dropWhile is_white_space (rev (dropWhile is_white_space s)))"

text \<open>
  \<^verbatim>\<open>text.replace(/<[^>]*>/g, '')\<close>. The pattern matches at a \<^verbatim>\<open><\<close> that has a \<^verbatim>\<open>>\<close>
  somewhere after it and extends to the first such \<^verbatim>\<open>>\<close> (the class \<^verbatim>\<open>[^>]\<close> also takes
  \<^verbatim>\<open><\<close> and line breaks); the global replacement removes each match and resumes right
  after it. Where there is no match at a position the character is kept.
\<close>

function strip_tags :: "string \<Rightarrow> string" where
  "strip_tags [] = []"
| "strip_tags (c # cs) =
     (if c = CHR ''<'' \<and> CHR ''>'' \<in> set cs
      then strip_tags (tl (dropWhile (\<lambda>x. x \<noteq> CHR ''>'') cs))
      else c # strip_tags cs)"
  by pat_completeness auto
termination
proof (relation "measure length")
  fix c :: char and cs :: string
  have "length (tl (dropWhile (\<lambda>x. x \<noteq> CHR ''>'') cs)) \<le> length cs"
    using length_dropWhile_le [of "\<lambda>x. x \<noteq> CHR ''>''" cs] by simp
  then show "(tl (dropWhile (\<lambda>x. x \<noteq> CHR ''>'') cs), c # cs) \<in> measure length"
    by simp
qed simp_all

text \<open>
  A value that a prompt expression can take: a string, \<^verbatim>\<open>undefined\<close>, or a member that an
  object literal inherits from \<^verbatim>\<open>Object.prototype\<close> (a function or an object, named by its
  key). Truthiness is JavaScript's: the empty string and \<^verbatim>\<open>undefined\<close> are falsy, every
  object is truthy.
\<close>

datatype js_value = Text string | Undefined | Inherited string

fun truthy :: "js_value \<Rightarrow> bool" where
  "truthy (Text s) = (s \<noteq> [])"
| "truthy Undefined = False"
| "truthy (Inherited k) = True"

definition js_or :: "js_value \<Rightarrow> js_value \<Rightarrow> js_value" where
  "js_or a b = (if truthy a then a else b)"

definition object_prototype_keys :: "string list" where
  "object_prototype_keys =
     [''constructor'', ''__defineGetter__'', ''__defineSetter__'', ''hasOwnProperty'',
      ''__lookupGetter__'', ''__lookupSetter__'', ''isPrototypeOf'',
      ''propertyIsEnumerable'', ''toString'', ''valueOf'', ''__proto__'',
      ''toLocaleString'']"

section \<open>\<^verbatim>\<open>openaiClient.js\<close>: prompts and the request body\<close>

text \<open>The object literal \<^verbatim>\<open>personas\<close> of \<^verbatim>\<open>getPersonaPrompt\<close>, entry by entry.\<close>

definition personas :: "(string \<times> string) list" where
  "personas =
  [
   (''virat-kohli'',
      ''DEMOLISH this photo like Virat Kohli would destroy a rival team! Be '' @
      ''absolutely RUTHLESS and aggressive. Use cricket sledging - 'This shot '' @
      ''has worse technique than a tailender!' Mock their pose like you're '' @
      ''mocking a batsman's stance. Be intense, passionate, and brutal. Say '' @
      ''things like 'Even a blind umpire would call this OUT!' Show no mercy! '' @
      ''MAXIMUM 3-4 lines only.''),
   (''arnab-goswami'',
      ''DESTROY this photo like Arnab Goswami in full attack mode! Be '' @
      ''ABSOLUTELY OUTRAGEOUS and dramatic! Scream things like 'HOW DARE THEY '' @
      ''take such a photo!' Ask brutal questions - 'WHO told them this pose was '' @
      ''acceptable?' Be mercilessly mocking and intense. Make it feel like '' @
      ''you're EXPOSING a major scandal! MAXIMUM 3-4 lines only.''),
   (''rajinikanth'',
      ''Roast this photo with Rajinikanth's LEGENDARY swagger but make it '' @
      ''SAVAGE! Say 'Mind it!' while brutally mocking everything. Use his style '' @
      ''to deliver cutting insults - 'Even my stunts look more realistic than '' @
      ''this pose!' Be stylishly brutal and mock with Thalaiva's confidence. '' @
      ''Make them feel small with style! MAXIMUM 3-4 lines only.''),
   (''shashi-tharoor'',
      ''INTELLECTUALLY DESTROY this photo using Shashi Tharoor's vocabulary! '' @
      ''Use big words to deliver SAVAGE insults. Call them things like 'a '' @
      ''paragon of photographic mediocrity' or 'an epitome of aesthetic '' @
      ''catastrophe.' Be eloquently brutal and mockingly sophisticated. Make '' @
      ''them feel intellectually inferior while roasting mercilessly! MAXIMUM '' @
      ''3-4 lines only.''),
   (''bhuvan-bam'',
      ''SAVAGE this photo like Bhuvan Bam roasting someone! Use YouTube humor '' @
      ''to be brutally funny - 'Bhai, yeh photo dekh kar lagta hai filter bhi '' @
      ''give up kar gaya!' Be relentlessly mocking with millennial slang. '' @
      ''Use 'Samay hai' to mock their timing. Be energetically brutal and don't '' @
      ''spare anything! MAXIMUM 3-4 lines only.''),
   (''karan-johar'',
      ''TEAR APART this photo like Karan Johar roasting celebrities on his '' @
      ''show! Be glamorously SAVAGE about fashion, pose, everything! Say things '' @
      ''like 'Darling, this look is giving me second-hand embarrassment!' Mock '' @
      ''their style choices mercilessly. Be fabulously brutal with Bollywood '' @
      ''references. Show no mercy, darling! MAXIMUM 3-4 lines only.''),
   (''sunil-grover'',
      ''Channel Gutthi/Dr. Gulati to be INNOCENTLY SAVAGE! Use that sweet voice '' @
      ''to deliver brutal roasts - 'Arrey sahab, photo mein kya ho gaya hai '' @
      ''aapko?' Be mockingly innocent while being absolutely ruthless. Use '' @
      ''Hindi comedy to brutally roast everything visible. Make it hilariously '' @
      ''cruel with innocent expressions! MAXIMUM 3-4 lines only.''),
   (''jackie-shroff'',
      ''Roast this photo like Jackie Shroff would - be BINDAAS and brutally '' @
      ''honest! Use his signature style - 'Bhidu, yeh kya scene hai?' Be coolly '' @
      ''savage and mock everything with his laid-back but cutting humor. Say '' @
      ''things like 'Arre yaar, camera bhi confused ho gaya hoga!' Use Mumbai '' @
      ''street slang to deliver brutal roasts. Be stylishly ruthless, bhidu! '' @
      ''MAXIMUM 3-4 lines only.''),
   (''raghu-roadies'',
      ''ABSOLUTELY DESTROY this photo like Raghu from Roadies! Be FURIOUSLY '' @
      ''ANGRY and brutally savage! Scream things like 'WHAT THE HELL is this '' @
      ''pose?!' Mock their attitude like you're eliminating them from Roadies. '' @
      ''Be aggressively brutal - 'You think this is COOL? This is PATHETIC!' '' @
      ''Show pure rage and disgust. Make them feel worthless with your anger! '' @
      ''MAXIMUM 3-4 lines only.'')
  ]"

text \<open>
  \<^verbatim>\<open>personas[key]\<close>: an own entry, else what the prototype chain gives, else
  \<^verbatim>\<open>undefined\<close>.
\<close>

definition personas_at :: "string \<Rightarrow> js_value" where
  "personas_at key =
     (case map_of personas key of
        Some prompt \<Rightarrow> Text prompt
      | None \<Rightarrow> if key \<in> set object_prototype_keys then Inherited key else Undefined)"

text \<open>
  \<^verbatim>\<open>getPersonaPrompt(persona = 'kapil-sharma')\<close>; \<open>None\<close> is an omitted (undefined)
  argument, for which the default parameter stands in.
\<close>

definition getPersonaPrompt :: "string option \<Rightarrow> js_value" where
  "getPersonaPrompt persona =
     (let key = (case persona of None \<Rightarrow> ''kapil-sharma'' | Some k \<Rightarrow> k)
      in js_or (personas_at key) (personas_at ''kapil-sharma''))"

text \<open>
  The \<^verbatim>\<open>options\<close> argument of \<^verbatim>\<open>generateRoast\<close>; \<open>None\<close> is a property that is not
  given. Numbers are exact: \<^verbatim>\<open>maxTokens\<close> a natural number, \<^verbatim>\<open>temperature\<close> a rational.
\<close>

record options =
  persona :: "string option"
  customPrompt :: "string option"
  maxTokens :: "nat option"
  temperature :: "rat option"

text \<open>
  The request body. Its \<^verbatim>\<open>messages\<close> array always holds the one user message with a
  text part and an image part, so the record keeps the two parts: \<open>req_text\<close> is
  \<^verbatim>\<open>messages[0].content[0].text\<close> and \<open>req_image_url\<close> is
  \<^verbatim>\<open>messages[0].content[1].image_url.url\<close>.
\<close>

record request_body =
  req_model :: string
  req_text :: js_value
  req_image_url :: string
  max_tokens :: nat
  req_temperature :: rat

definition buildRequestBody :: "string \<Rightarrow> options \<Rightarrow> request_body" where
  "buildRequestBody base64Image opts =
     (let prompt = js_or (case customPrompt opts of None \<Rightarrow> Undefined | Some p \<Rightarrow> Text p)
                         (getPersonaPrompt (persona opts))
      in \<lparr>req_model = OPENAI_MODEL,
          req_text = prompt,
          req_image_url = base64Image,
          max_tokens = (case maxTokens opts of
                          None \<Rightarrow> MAX_TOKENS
                        | Some n \<Rightarrow> if n \<noteq> 0 then n else MAX_TOKENS),
          req_temperature = (case temperature opts of
                               None \<Rightarrow> TEMPERATURE
                             | Some t \<Rightarrow> if t \<noteq> 0 then t else TEMPERATURE)\<rparr>)"

text \<open>
  \<^verbatim>\<open>validateInput\<close>; \<open>None\<close> is a \<^verbatim>\<open>null\<close> or \<^verbatim>\<open>undefined\<close> image. The bound
  \<^verbatim>\<open>10 * 1024 * 1024 * 1.33\<close> is 13946060.8, and a length, being a whole number, exceeds
  it exactly when it exceeds 13946060. The result is the error of a rejected input, or
  \<open>None\<close> for \<^verbatim>\<open>{ isValid: true }\<close>.
\<close>

definition validateInput :: "string option \<Rightarrow> error_info option" where
  "validateInput base64Image =
     (case base64Image of
        None \<Rightarrow> Some (mk_error ''invalid_input'' ''No image provided'')
      | Some img \<Rightarrow>
          if img = [] then Some (mk_error ''invalid_input'' ''No image provided'')
          else if \<not> startsWith img ''data:image/''
          then Some (mk_error ''invalid_input'' ''Invalid base64 image format'')
          else if length img > 13946060
          then Some (mk_error ''image_too_large'' ''Image too large for processing'')
          else None)"

section \<open>HTTP responses as the client reads them\<close>

text \<open>
  A response exposes \<^verbatim>\<open>ok\<close>, \<^verbatim>\<open>status\<close> and \<^verbatim>\<open>json()\<close>. The parsed body is kept in the
  shape the client reads it in:
  \<^item> \<open>content_field\<close> is the value of \<^verbatim>\<open>choice?.message?.content\<close> for one element of
    \<^verbatim>\<open>choices\<close>: \<open>NoContent\<close> when a link of the chain is \<^verbatim>\<open>null\<close> or \<^verbatim>\<open>undefined\<close> or
    the content is a falsy value other than a string, \<open>Content s\<close> for the string \<open>s\<close>,
    \<open>NonString\<close> for a truthy value that is no string (it has no \<^verbatim>\<open>trim\<close> method);
  \<^item> \<open>choices\<close> is \<open>None\<close> when \<^verbatim>\<open>data.choices\<close> is falsy and the array otherwise;
  \<^item> \<open>usage\<close> is \<^verbatim>\<open>data.usage\<close>: \<^verbatim>\<open>undefined\<close>, \<^verbatim>\<open>null\<close>, or an object whose
    \<^verbatim>\<open>total_tokens\<close> is a number (\<open>None\<close> when the property is absent);
  \<^item> \<open>error_code\<close> is \<^verbatim>\<open>data.error?.code\<close> when that is a string.
  \<open>Unparseable\<close>: \<^verbatim>\<open>response.json()\<close> rejects. \<open>JsonNull\<close>: it resolves to \<^verbatim>\<open>null\<close>.
  A body that parses to a number, a string, a boolean or an array reads like an object
  with none of these properties, and a truthy \<^verbatim>\<open>choices\<close> that is no array like the array
  of what its index 0 gives.
\<close>

datatype content_field = NoContent | Content string | NonString

datatype usage_field = UsageAbsent | UsageNull | UsageTokens "nat option"

record completion =
  choices :: "content_field list option"
  usage :: usage_field
  error_code :: "string option"

datatype body = Unparseable | JsonNull | Json completion

record http_response =
  ok :: bool
  status :: nat
  body :: body

section \<open>\<^verbatim>\<open>corsProxy.js\<close>\<close>

definition DIRECT :: string where
  "DIRECT = ''direct''"

definition CORS_PROXY :: string where
  "CORS_PROXY = ''cors_proxy''"

definition CUSTOM_PROXY :: string where
  "CUSTOM_PROXY = ''custom''"

definition MOCK :: string where
  "MOCK = ''mock''"

text \<open>
  One call of \<^verbatim>\<open>fetch\<close> rejects or resolves to a response. The network is a script that
  gives, for the \<open>i\<close>-th call of \<^verbatim>\<open>fetch\<close>, the time it takes in milliseconds and its
  outcome; \<open>fetches\<close> counts the calls made so far.
\<close>

datatype fetch_outcome = Rejects | Resolves http_response

record network =
  script :: "nat \<Rightarrow> nat \<times> fetch_outcome"
  fetches :: nat

definition fetch :: "network \<Rightarrow> (nat \<times> fetch_outcome) \<times> network" where
  "fetch n = (script n (fetches n), n\<lparr>fetches := fetches n + 1\<rparr>)"

text \<open>
  An \<^verbatim>\<open>async\<close> function returns a promise; \<open>Promise v\<close> is the promise that settles with
  \<open>v\<close>. A promise is an object, and a condition that is an object is true.
\<close>

datatype 'a promise = Promise 'a

fun promise_truthy :: "'a promise \<Rightarrow> bool" where
  "promise_truthy (Promise v) = True"

definition getDefaultFallbacks :: "bool \<Rightarrow> string list" where
  "getDefaultFallbacks jest_defined = (if jest_defined then [] else [DIRECT])"

text \<open>\<^verbatim>\<open>isCustomProxyAvailable\<close>, given the outcome of its \<^verbatim>\<open>fetch\<close> of the health endpoint.\<close>

definition isCustomProxyAvailable :: "fetch_outcome \<Rightarrow> bool promise" where
  "isCustomProxyAvailable probe =
     Promise (case probe of Resolves response \<Rightarrow> ok response | Rejects \<Rightarrow> False)"

text \<open>
  \<^verbatim>\<open>detectBestStrategy\<close>: \<open>jest_defined\<close> is \<^verbatim>\<open>typeof jest !== 'undefined'\<close>, \<open>probe\<close> the
  outcome of the health request and \<open>hostname\<close> is \<^verbatim>\<open>window.location.hostname\<close>. The
  source tests the value of the call \<^verbatim>\<open>this.isCustomProxyAvailable()\<close> itself.
\<close>

definition detectBestStrategy :: "bool \<Rightarrow> fetch_outcome \<Rightarrow> string \<Rightarrow> string" where
  "detectBestStrategy jest_defined probe hostname =
     (if jest_defined then MOCK
      else if promise_truthy (isCustomProxyAvailable probe) then CUSTOM_PROXY
      else if hostname = ''localhost'' \<or> hostname = ''127.0.0.1'' then CORS_PROXY
      else CORS_PROXY)"

record corsProxy =
  strategy :: string
  fallbackStrategies :: "string list"

text \<open>
  \<^verbatim>\<open>new CorsProxy(config)\<close>; \<open>None\<close> is a property that \<^verbatim>\<open>config\<close> does not give (the
  singleton is built from an empty \<^verbatim>\<open>config\<close>).
\<close>

definition new_CorsProxy ::
  "string option \<Rightarrow> string list option \<Rightarrow> bool \<Rightarrow> fetch_outcome \<Rightarrow> string \<Rightarrow> corsProxy" where
  "new_CorsProxy cfg_strategy cfg_fallbacks jest_defined probe hostname =
     \<lparr>strategy = (case cfg_strategy of
                     None \<Rightarrow> detectBestStrategy jest_defined probe hostname
                   | Some s \<Rightarrow> if s \<noteq> [] then s
                              else detectBestStrategy jest_defined probe hostname),
      fallbackStrategies = (case cfg_fallbacks of
                              None \<Rightarrow> getDefaultFallbacks jest_defined
                            | Some fs \<Rightarrow> fs)\<rparr>"

definition mockData :: completion where
  "mockData =
     \<lparr>choices = Some [Content (''This is a mock roast response for testing purposes! '' @
                  ''Your photo is so generic, it could be the default wallpaper for '' @
                  ''disappointment.'')],
      usage = UsageTokens (Some 117),
      error_code = None\<rparr>"

definition mockRequest :: "nat \<times> fetch_outcome" where
  "mockRequest = (100, Resolves \<lparr>ok = True, status = 200, body = Json mockData\<rparr>)"

text \<open>
  \<^verbatim>\<open>executeStrategy\<close>: the three network strategies differ in the URL and the headers
  they hand to \<^verbatim>\<open>fetch\<close>; the mock answers after 100 ms without a request; an unknown
  strategy throws, which rejects the promise of the \<^verbatim>\<open>async\<close> function.
\<close>

definition executeStrategy :: "string \<Rightarrow> network \<Rightarrow> (nat \<times> fetch_outcome) \<times> network" where
  "executeStrategy strat n =
     (if strat = DIRECT then fetch n
      else if strat = CORS_PROXY then fetch n
      else if strat = CUSTOM_PROXY then fetch n
      else if strat = MOCK then (mockRequest, n)
      else ((0, Rejects), n))"

text \<open>
  An exception object, by its \<^verbatim>\<open>message\<close> property (\<open>None\<close> when it has none).
\<close>

datatype js_error = JsError "string option"

text \<open>
  The loop of \<^verbatim>\<open>makeRequest\<close> over \<^verbatim>\<open>[this.strategy, ...this.fallbackStrategies]\<close>;
  \<open>t\<close> is the time spent in the strategies tried so far. The result is the time the
  call took and either the error thrown (\<open>Inl\<close>) or the response returned (\<open>Inr\<close>).
\<close>

fun try_strategies ::
  "string list \<Rightarrow> nat \<Rightarrow> network \<Rightarrow> (nat \<times> (js_error + http_response)) \<times> network" where
  "try_strategies [] t n = ((t, Inl (JsError (Some ''All proxy strategies failed''))), n)"
| "try_strategies (strat # strategies) t n =
     (case executeStrategy strat n of
        ((d, Resolves response), n') \<Rightarrow>
          if ok response then ((t + d, Inr response), n')
          else try_strategies strategies (t + d) n'
      | ((d, Rejects), n') \<Rightarrow> try_strategies strategies (t + d) n')"

definition makeRequest ::
  "corsProxy \<Rightarrow> network \<Rightarrow> (nat \<times> (js_error + http_response)) \<times> network" where
  "makeRequest cp n = try_strategies (strategy cp # fallbackStrategies cp) 0 n"

section \<open>\<^verbatim>\<open>openaiClient.js\<close>: the client\<close>

text \<open>
  The result of \<^verbatim>\<open>generateRoast\<close>: \<open>None\<close> is a property the returned object does not
  have. Times are whole milliseconds.
\<close>

record result =
  success :: bool
  roastText :: "string option"
  processingTimeMs :: "nat option"
  error :: "error_info option"

text \<open>
  \<^verbatim>\<open>estimatedCost\<close> is a double, and the code computes it in double arithmetic, which
  rounds: \<^verbatim>\<open>12 * 0.00001\<close> is \<^verbatim>\<open>0.00012000000000000002\<close>. That arithmetic is not
  modelled. The cost is kept as the expression that computes it: \<open>CostZero\<close> is the
  initial \<^verbatim>\<open>0\<close>, and \<open>CostPlus c t\<close> is the double that \<^verbatim>\<open>c + t * 0.00001\<close> evaluates to.
  \<open>cost_value\<close> gives the number an expression stands for, for any function
  \<open>plus_rate\<close> that computes \<^verbatim>\<open>c + t * 0.00001\<close> from \<open>c\<close> and \<open>t\<close>.
\<close>

datatype cost = CostZero | CostPlus cost nat

fun cost_value :: "(rat \<Rightarrow> nat \<Rightarrow> rat) \<Rightarrow> cost \<Rightarrow> rat" where
  "cost_value plus_rate CostZero = 0"
| "cost_value plus_rate (CostPlus c t) = plus_rate (cost_value plus_rate c) t"

record usageStats =
  totalRequests :: nat
  totalTokens :: nat
  errorCount :: nat
  totalResponseTime :: nat
  estimatedCost :: cost

definition new_usageStats :: usageStats where
  "new_usageStats =
     \<lparr>totalRequests = 0, totalTokens = 0, errorCount = 0, totalResponseTime = 0,
      estimatedCost = CostZero\<rparr>"

text \<open>
  What the client acts on: the clock read by \<^verbatim>\<open>performance.now()\<close>, the trace of what
  it has done so far (\<open>Sent b\<close>: one call of the transport, with the request body \<open>b\<close>;
  \<open>Waited ms\<close>: one \<^verbatim>\<open>delay(ms)\<close> awaited), and the state of the transport. Time passes
  in transport calls and in delays only. A transport is one call of
  \<^verbatim>\<open>corsProxy.makeRequest\<close>: from its state it gives the time the call takes, the error it
  throws or the response it returns, and its next state.
\<close>

datatype event = Sent request_body | Waited nat

record 'n world =
  clock :: nat
  trace :: "event list"
  net :: 'n

type_synonym 'n transport = "'n \<Rightarrow> (nat \<times> (js_error + http_response)) \<times> 'n"

definition shouldRetry :: "js_error \<Rightarrow> bool" where
  "shouldRetry err =
     (case err of
        JsError None \<Rightarrow> True
      | JsError (Some msg) \<Rightarrow> \<not> str_includes msg ''401'' \<and> \<not> str_includes msg ''400'')"

definition delay :: "nat \<Rightarrow> 'n world \<Rightarrow> 'n world" where
  "delay ms w = w\<lparr>clock := clock w + ms, trace := trace w @ [Waited ms]\<rparr>"

definition maxRetries :: nat where
  "maxRetries = 2"

function makeRequestWithRetry ::
  "'n transport \<Rightarrow> request_body \<Rightarrow> nat \<Rightarrow> 'n world \<Rightarrow> (js_error + http_response) \<times> 'n world" where
  "makeRequestWithRetry send requestBody retryCount w =
     (case send (net w) of
        ((d, outcome), n') \<Rightarrow>
          (let w' = w\<lparr>clock := clock w + d, trace := trace w @ [Sent requestBody], net := n'\<rparr>
           in case outcome of
                Inr response \<Rightarrow> (Inr response, w')
              | Inl err \<Rightarrow>
                  if retryCount < maxRetries \<and> shouldRetry err
                  then makeRequestWithRetry send requestBody (retryCount + 1)
                         (delay (2 ^ retryCount * 1000) w')
                  else (Inl err, w')))"
  by pat_completeness auto
termination
  by (relation "measure (\<lambda>(send, requestBody, retryCount, w). maxRetries - retryCount)") auto

declare makeRequestWithRetry.simps [simp del]

definition failure :: "nat option \<Rightarrow> error_info \<Rightarrow> result" where
  "failure t e = \<lparr>success = False, roastText = None, processingTimeMs = t, error = Some e\<rparr>"

text \<open>\<^verbatim>\<open>processSuccessResponse\<close>; \<open>None\<close>: it throws (\<^verbatim>\<open>content.trim\<close> is no function).\<close>

definition processSuccessResponse :: "completion \<Rightarrow> nat \<Rightarrow> result option" where
  "processSuccessResponse data processingTime =
     (case choices data of
        None \<Rightarrow> Some (failure None (mk_error ''invalid_response'' ''Invalid API response format''))
      | Some cs \<Rightarrow>
          (case (case cs of [] \<Rightarrow> NoContent | c # rest \<Rightarrow> c) of
             NoContent \<Rightarrow>
               Some (failure None (mk_error ''invalid_response'' ''Invalid API response format''))
           | NonString \<Rightarrow> None
           | Content s \<Rightarrow>
               if s = []
               then Some (failure None
                            (mk_error ''invalid_response'' ''Invalid API response format''))
               else (let roast = trim s
                     in if roast = []
                        then Some (failure None
                                     (mk_error ''empty_response'' ''Empty roast content received''))
                        else Some \<lparr>success = True,
                                   roastText = Some (strip_tags roast),
                                   processingTimeMs = Some processingTime,
                                   error = None\<rparr>)))"

text \<open>
  \<^verbatim>\<open>processErrorResponse\<close>; \<open>errorData\<close> is \<open>None\<close> when the parsed body is \<^verbatim>\<open>null\<close>, and
  the result is \<open>None\<close> when reading \<^verbatim>\<open>errorData.error\<close> throws.
\<close>

definition processErrorResponse ::
  "http_response \<Rightarrow> completion option \<Rightarrow> nat \<Rightarrow> result option" where
  "processErrorResponse response errorData processingTime =
     (if status response = 429
      then Some (failure (Some processingTime)
                   (mk_error_retry ''rate_limit''
                      ''Rate limit exceeded. Please wait before trying again.'' 60))
      else if status response = 401
      then Some (failure (Some processingTime) (mk_error ''api_error'' ''Invalid API key provided''))
      else if status response = 400
      then (case errorData of
              None \<Rightarrow> None
            | Some d \<Rightarrow>
                if error_code d = Some ''content_policy_violation''
                then Some (failure (Some processingTime)
                             (mk_error ''content_policy'' ''Content violates safety guidelines''))
                else Some (failure (Some processingTime)
                             (mk_error ''api_error'' ''Bad request to API'')))
      else if status response = 503
      then Some (failure (Some processingTime)
                   (mk_error_retry ''service_unavailable''
                      ''OpenAI service temporarily unavailable'' 30))
      else Some (failure (Some processingTime)
                   (mk_error ''api_error'' ''Unknown API error occurred'')))"

text \<open>
  \<^verbatim>\<open>updateUsageStats(responseTime, success, usage = {})\<close>. The first two counters are
  updated before \<^verbatim>\<open>usage.total_tokens\<close> is read; the flag of the result is \<open>False\<close> when
  that read throws (\<^verbatim>\<open>usage\<close> is \<^verbatim>\<open>null\<close>), and the statistics returned are those at
  that moment. \<open>tokens\<close> is \<^verbatim>\<open>usage.total_tokens || 0\<close>, and the new cost is
  \<^verbatim>\<open>estimatedCost + tokens * 0.00001\<close> in the arithmetic of the code.
\<close>

definition updateUsageStats :: "nat \<Rightarrow> bool \<Rightarrow> usage_field \<Rightarrow> usageStats \<Rightarrow> bool \<times> usageStats" where
  "updateUsageStats responseTime succ u stats =
     (let stats1 = stats\<lparr>totalRequests := totalRequests stats + 1,
                         totalResponseTime := totalResponseTime stats + responseTime\<rparr>
      in if succ
         then (case u of
                 UsageNull \<Rightarrow> (False, stats1)
               | _ \<Rightarrow>
                   (let tokens = (case u of UsageTokens (Some t) \<Rightarrow> t | _ \<Rightarrow> 0)
                    in (True, stats1\<lparr>totalTokens := totalTokens stats1 + tokens,
                                      estimatedCost := CostPlus (estimatedCost stats1) tokens\<rparr>)))
         else (True, stats1\<lparr>errorCount := errorCount stats1 + 1\<rparr>))"



text \<open>The \<^verbatim>\<open>catch\<close> block of \<^verbatim>\<open>generateRoast\<close>.\<close>

definition on_exception :: "nat \<Rightarrow> usageStats \<Rightarrow> 'n world \<Rightarrow> result \<times> usageStats \<times> 'n world" where
  "on_exception startTime stats w =
     (let processingTime = clock w - startTime;
          stats' = snd (updateUsageStats processingTime False (UsageTokens None) stats)
      in if processingTime > 10000
         then (failure (Some processingTime)
                 (mk_error ''timeout'' ''Request timed out after 10 seconds''), stats', w)
         else (failure (Some processingTime)
                 (mk_error ''network_error'' ''Network request failed''), stats', w))"

text \<open>
  \<^verbatim>\<open>generateRoast\<close>, over the transport \<open>send\<close> (the source calls
  \<^verbatim>\<open>corsProxy.makeRequest\<close>). The state is the client's statistics and the world; the result
  comes with the state after the call. Past \<^verbatim>\<open>validateInput\<close> the image is a string.
\<close>

definition generateRoast ::
  "'n transport \<Rightarrow> string option \<Rightarrow> options \<Rightarrow> usageStats \<Rightarrow> 'n world
     \<Rightarrow> result \<times> usageStats \<times> 'n world" where
  "generateRoast send base64Image opts stats w =
     (let startTime = clock w
      in case validateInput base64Image of
           Some e \<Rightarrow> (failure None e, stats, w)
         | None \<Rightarrow>
             (let requestBody =
                    buildRequestBody (case base64Image of Some img \<Rightarrow> img | None \<Rightarrow> []) opts
              in case makeRequestWithRetry send requestBody 0 w of
                   (Inl err, w') \<Rightarrow> on_exception startTime stats w'
                 | (Inr response, w') \<Rightarrow>
                     (let processingTime = clock w' - startTime
                      in if ok response
                         then (case body response of
                                 Unparseable \<Rightarrow> on_exception startTime stats w'
                               | JsonNull \<Rightarrow> on_exception startTime stats w'
                               | Json data \<Rightarrow>
                                   (case processSuccessResponse data processingTime of
                                      None \<Rightarrow> on_exception startTime stats w'
                                    | Some res \<Rightarrow>
                                        (case updateUsageStats processingTime True (usage data) stats of
                                           (False, stats') \<Rightarrow> on_exception startTime stats' w'
                                         | (True, stats') \<Rightarrow> (res, stats', w'))))
                         else (case processErrorResponse response
                                      (case body response of
                                         Unparseable \<Rightarrow> Some \<lparr>choices = None, usage = UsageAbsent,
                                                               error_code = None\<rparr>
                                       | JsonNull \<Rightarrow> None
                                       | Json data \<Rightarrow> Some data)
                                      processingTime of
                                 None \<Rightarrow> on_exception startTime stats w'
                               | Some errorResult \<Rightarrow>
                                   (errorResult,
                                    snd (updateUsageStats processingTime False (UsageTokens None) stats),
                                    w')))))"

text \<open>
  The client of the application: \<^verbatim>\<open>generateRoast\<close> over the transport of a
  \<^verbatim>\<open>CorsProxy\<close> instance.
\<close>

definition generate ::
  "corsProxy \<Rightarrow> string option \<Rightarrow> options \<Rightarrow> usageStats \<Rightarrow> network world
     \<Rightarrow> result \<times> usageStats \<times> network world" where
  "generate cp = generateRoast (makeRequest cp)"

section \<open>Observations and scenario inputs\<close>

text \<open>
  A tag sequence in a text: a \<^verbatim>\<open><\<close> with a \<^verbatim>\<open>>\<close> somewhere after it, which is where the
  pattern \<^verbatim>\<open><[^>]*>\<close> has a match.
\<close>

fun has_tag :: "string \<Rightarrow> bool" where
  "has_tag [] = False"
| "has_tag (c # cs) = ((c = CHR ''<'' \<and> CHR ''>'' \<in> set cs) \<or> has_tag cs)"

text \<open>
  A result with exactly one variant populated: a success has a text and no error, a
  failure has an error and no text.
\<close>

definition one_variant :: "result \<Rightarrow> bool" where
  "one_variant r =
     (if success r then roastText r \<noteq> None \<and> error r = None
      else roastText r = None \<and> error r \<noteq> None)"

text \<open>A strategy execution that \<^verbatim>\<open>makeRequest\<close> passes over: it throws or is not ok.\<close>

fun failed :: "fetch_outcome \<Rightarrow> bool" where
  "failed Rejects = True"
| "failed (Resolves response) = (\<not> ok response)"





text \<open>
  The proxy that the application builds outside tests, a world in which every \<^verbatim>\<open>fetch\<close>
  takes \<open>d\<close> milliseconds and has the outcome \<open>out\<close>, and inputs of a call.
\<close>

definition production_proxy :: corsProxy where
  "production_proxy = new_CorsProxy None None False Rejects ''roastme.example''"

definition every_fetch :: "nat \<Rightarrow> fetch_outcome \<Rightarrow> network world" where
  "every_fetch d out =
     \<lparr>clock = 0, trace = [], net = \<lparr>script = (\<lambda>i. (d, out)), fetches = 0\<rparr>\<rparr>"

definition sample_image :: string where
  "sample_image = ''data:image/jpeg;base64,/9j/4AAQSkZJRg==''"

definition sample_options :: options where
  "sample_options =
     \<lparr>persona = Some ''rajinikanth'', customPrompt = Some ''Roast this photo'',
      maxTokens = None, temperature = None\<rparr>"

definition completion_of :: "string \<Rightarrow> nat \<Rightarrow> http_response" where
  "completion_of text tokens =
     \<lparr>ok = True, status = 200,
      body = Json \<lparr>choices = Some [Content text], usage = UsageTokens (Some tokens),
                   error_code = None\<rparr>\<rparr>"

definition rejection_of :: "nat \<Rightarrow> string \<Rightarrow> http_response" where
  "rejection_of code err =
     \<lparr>ok = False, status = code,
      body = Json \<lparr>choices = None, usage = UsageAbsent, error_code = Some err\<rparr>\<rparr>"



section \<open>The validation gate\<close>

lemma supported_formats_mem:
  "t \<in> set SUPPORTED_FORMATS \<longleftrightarrow>
     t = ''image/jpeg'' \<or> t = ''image/png'' \<or> t = ''image/gif'' \<or> t = ''image/webp''"
  by (auto simp: SUPPORTED_FORMATS_def)

text \<open>
  The size check and the format check, each on its own: a size of zero is
  \<^verbatim>\<open>file_invalid\<close>, a size above 5 MiB is \<^verbatim>\<open>file_size\<close>, a size up to 5 MiB (included)
  passes; a supported MIME type passes, a missing, empty or unsupported one is
  \<^verbatim>\<open>file_format\<close>.
\<close>

lemma validateFileSize_outcomes:
  assumes "fsize f = Some n"
  shows "(n = 0 \<longrightarrow> error_type (validateFileSize (Some f)) = Some ''file_invalid'') \<and>
         (n > MAX_FILE_SIZE_BYTES \<longrightarrow>
            error_type (validateFileSize (Some f)) = Some ''file_size'') \<and>
         (0 < n \<and> n \<le> MAX_FILE_SIZE_BYTES \<longrightarrow> validateFileSize (Some f) = Valid)"
  using assms by (auto simp: validateFileSize_def mk_error_def MAX_FILE_SIZE_BYTES_def)

lemma validateFileFormat_outcomes:
  "(ftype f = Some t \<and> t \<in> set SUPPORTED_FORMATS \<longrightarrow> validateFileFormat (Some f) = Valid) \<and>
   (ftype f = None \<or> ftype f = Some [] \<or> (ftype f = Some t \<and> t \<notin> set SUPPORTED_FORMATS) \<longrightarrow>
      error_type (validateFileFormat (Some f)) = Some ''file_format'')"
  by (auto simp: validateFileFormat_def mk_error_def supported_formats_mem)

text \<open>
  \<^verbatim>\<open>validateFile\<close> on an object that has \<^verbatim>\<open>name\<close> as an own property (as the \<^verbatim>\<open>File\<close>
  mock of the test setup has), a numeric size and a string MIME type: the size check,
  then the format check, then the header.
\<close>

lemma validateFile_with_own_name:
  assumes "fname f = Some nm" and "fsize f = Some n" and "ftype f = Some t"
  shows "(n = 0 \<longrightarrow> map_option error_type (validateFile (Some f)) = Some (Some ''file_invalid'')) \<and>
         (n > MAX_FILE_SIZE_BYTES \<longrightarrow>
            map_option error_type (validateFile (Some f)) = Some (Some ''file_size'')) \<and>
         (0 < n \<and> n \<le> MAX_FILE_SIZE_BYTES \<and> (t = [] \<or> t \<notin> set SUPPORTED_FORMATS) \<longrightarrow>
            map_option error_type (validateFile (Some f)) = Some (Some ''file_format'')) \<and>
         (0 < n \<and> n \<le> MAX_FILE_SIZE_BYTES \<and> t \<in> set SUPPORTED_FORMATS \<and>
          header_read f = Loaded \<longrightarrow> validateFile (Some f) = Some Valid)"
  using assms
  by (auto simp: validateFile_def validateFileSize_def validateFileFormat_def
      validateFileHeaders_def checkMagicNumbers_def mk_error_def MAX_FILE_SIZE_BYTES_def
      supported_formats_mem)

text \<open>
  An object without \<^verbatim>\<open>name\<close> as an own property never reaches these checks.
\<close>

lemma validateFile_without_own_name:
  assumes "fname f = None"
  shows "validateFile (Some f) =
           Some (Invalid (mk_error ''file_invalid'' ''Invalid file object provided''))"
  using assms by (simp add: validateFile_def)

text \<open>
  Claim C7 says that a file whose size is above zero and at most 5 MiB and whose MIME
  type is supported is accepted. \<^verbatim>\<open>validateFile\<close> asks for \<^verbatim>\<open>name\<close> with
  \<^verbatim>\<open>hasOwnProperty\<close>, and a \<^verbatim>\<open>File\<close> of the browser inherits its \<^verbatim>\<open>name\<close>: a JPEG of
  1.2 MB passes the size check and the format check, and \<^verbatim>\<open>validateFile\<close> rejects it as
  \<^verbatim>\<open>file_invalid\<close>.
\<close>

theorem browser_file_is_rejected:
  "validateFileSize (Some \<lparr>fname = None, fsize = Some 1258291, ftype = Some ''image/jpeg'',
                           header_read = Loaded\<rparr>) = Valid \<and>
   validateFileFormat (Some \<lparr>fname = None, fsize = Some 1258291, ftype = Some ''image/jpeg'',
                             header_read = Loaded\<rparr>) = Valid \<and>
   validateFile (Some \<lparr>fname = None, fsize = Some 1258291, ftype = Some ''image/jpeg'',
                       header_read = Loaded\<rparr>)
     = Some (Invalid (mk_error ''file_invalid'' ''Invalid file object provided''))"
  by (simp add: validateFile_def validateFileSize_def validateFileFormat_def
      MAX_FILE_SIZE_BYTES_def supported_formats_mem)

section \<open>The persona table\<close>

text \<open>
  Claim C3 says that an unknown or omitted key yields the fixed default persona prompt, a
  string. The table has no entry for the default key \<^verbatim>\<open>kapil-sharma\<close>, so the lookup of
  an omitted key, of the default key and of an unknown key each yield \<^verbatim>\<open>undefined\<close>.
\<close>

theorem getPersonaPrompt_default_undefined:
  "getPersonaPrompt None = Undefined \<and>
   getPersonaPrompt (Some ''kapil-sharma'') = Undefined \<and>
   getPersonaPrompt (Some ''default'') = Undefined"
  by (simp add: getPersonaPrompt_def personas_at_def personas_def js_or_def object_prototype_keys_def)

section \<open>Strategy selection\<close>

text \<open>
  Claim C6 says that outside test contexts the relay proxy is selected when the liveness
  probe fails. \<^verbatim>\<open>detectBestStrategy\<close> tests the promise returned by
  \<^verbatim>\<open>isCustomProxyAvailable\<close>, not the value it settles with, so outside test contexts it
  selects the backend proxy whatever the probe does.
\<close>

theorem detectBestStrategy_ignores_probe:
  "detectBestStrategy False probe hostname = CUSTOM_PROXY \<and> CUSTOM_PROXY \<noteq> CORS_PROXY"
  by (simp add: detectBestStrategy_def isCustomProxyAvailable_def CUSTOM_PROXY_def CORS_PROXY_def)

section \<open>Request construction\<close>

text \<open>
  Claim C10, as stated, has the caller's temperature used whenever it is supplied. A
  supplied temperature of 0 is replaced by the default 0.9.
\<close>

theorem buildRequestBody_zero_temperature_counterexample:
  "req_temperature (buildRequestBody ''data:image/png;base64,AAAA''
      \<lparr>persona = None, customPrompt = None, maxTokens = Some 150, temperature = Some 0\<rparr>) = 9 / 10"
  by (simp add: buildRequestBody_def TEMPERATURE_def)

text \<open>
  Claim C10, amended: the request uses the caller's \<^verbatim>\<open>maxTokens\<close> and \<^verbatim>\<open>temperature\<close> when
  they are supplied and not zero, and the defaults 300 and 0.9 when they are omitted or
  zero; a \<^verbatim>\<open>customPrompt\<close> that is supplied and not empty overrides the persona lookup,
  which is used when it is omitted or empty.
\<close>

theorem buildRequestBody_parameters:
  "(maxTokens opts = Some n \<and> n \<noteq> 0 \<longrightarrow> max_tokens (buildRequestBody img opts) = n) \<and>
   (maxTokens opts = None \<or> maxTokens opts = Some 0 \<longrightarrow> max_tokens (buildRequestBody img opts) = 300) \<and>
   (temperature opts = Some t \<and> t \<noteq> 0 \<longrightarrow> req_temperature (buildRequestBody img opts) = t) \<and>
   (temperature opts = None \<or> temperature opts = Some 0 \<longrightarrow>
      req_temperature (buildRequestBody img opts) = 9 / 10) \<and>
   (customPrompt opts = Some p \<and> p \<noteq> [] \<longrightarrow> req_text (buildRequestBody img opts) = Text p) \<and>
   (customPrompt opts = None \<or> customPrompt opts = Some [] \<longrightarrow>
      req_text (buildRequestBody img opts) = getPersonaPrompt (persona opts))"
  by (auto simp: buildRequestBody_def MAX_TOKENS_def TEMPERATURE_def js_or_def Let_def)

text \<open>
  The amended claim at the options of the repository's configuration test, and at
  options that omit the prompt and the token limit and give a temperature of 0.
\<close>

theorem buildRequestBody_parameters_witness:
  "max_tokens (buildRequestBody ''data:image/png;base64,AAAA''
      \<lparr>persona = Some ''rajinikanth'', customPrompt = Some ''Make it extra funny'',
       maxTokens = Some 150, temperature = Some (7 / 10)\<rparr>) = 150 \<and>
   req_temperature (buildRequestBody ''data:image/png;base64,AAAA''
      \<lparr>persona = Some ''rajinikanth'', customPrompt = Some ''Make it extra funny'',
       maxTokens = Some 150, temperature = Some (7 / 10)\<rparr>) = 7 / 10 \<and>
   req_text (buildRequestBody ''data:image/png;base64,AAAA''
      \<lparr>persona = Some ''rajinikanth'', customPrompt = Some ''Make it extra funny'',
       maxTokens = Some 150, temperature = Some (7 / 10)\<rparr>) = Text ''Make it extra funny'' \<and>
   max_tokens (buildRequestBody ''data:image/png;base64,AAAA''
      \<lparr>persona = Some ''rajinikanth'', customPrompt = None, maxTokens = None,
       temperature = Some 0\<rparr>) = 300 \<and>
   req_temperature (buildRequestBody ''data:image/png;base64,AAAA''
      \<lparr>persona = Some ''rajinikanth'', customPrompt = None, maxTokens = None,
       temperature = Some 0\<rparr>) = 9 / 10 \<and>
   req_text (buildRequestBody ''data:image/png;base64,AAAA''
      \<lparr>persona = Some ''rajinikanth'', customPrompt = None, maxTokens = None,
       temperature = Some 0\<rparr>) = getPersonaPrompt (Some ''rajinikanth'')"
  using buildRequestBody_parameters [of
      "\<lparr>persona = Some ''rajinikanth'', customPrompt = Some ''Make it extra funny'',
       maxTokens = Some 150, temperature = Some (7 / 10)\<rparr>" 150 "''data:image/png;base64,AAAA''"
      "7 / 10" "''Make it extra funny''"]
    buildRequestBody_parameters [of
      "\<lparr>persona = Some ''rajinikanth'', customPrompt = None, maxTokens = None,
       temperature = Some 0\<rparr>" 0 "''data:image/png;base64,AAAA''" 0 "[]"]
  by simp

section \<open>The retry loop\<close>

lemma makeRequestWithRetry_returns:
  assumes "send (net w) = ((d, Inr response), n')"
  shows "makeRequestWithRetry send rb rc w =
           (Inr response, w\<lparr>clock := clock w + d, trace := trace w @ [Sent rb], net := n'\<rparr>)"
  using assms by (subst makeRequestWithRetry.simps) simp

lemma makeRequestWithRetry_retries:
  assumes "send (net w) = ((d, Inl e), n')" and "rc < maxRetries" and "shouldRetry e"
  shows "makeRequestWithRetry send rb rc w =
           makeRequestWithRetry send rb (rc + 1)
             (delay (2 ^ rc * 1000)
                (w\<lparr>clock := clock w + d, trace := trace w @ [Sent rb], net := n'\<rparr>))"
  using assms by (subst makeRequestWithRetry.simps) simp

lemma makeRequestWithRetry_gives_up:
  assumes "send (net w) = ((d, Inl e), n')" and "\<not> (rc < maxRetries \<and> shouldRetry e)"
  shows "makeRequestWithRetry send rb rc w =
           (Inl e, w\<lparr>clock := clock w + d, trace := trace w @ [Sent rb], net := n'\<rparr>)"
  using assms by (subst makeRequestWithRetry.simps) auto

text \<open>Three failing calls in a row: the retry loop ends with the third error.\<close>

lemma makeRequestWithRetry_exhausted:
  fixes send :: "'n transport"
  assumes inv: "I (net w)"
    and fails: "\<And>n. I n \<Longrightarrow> \<exists>d e n'. send n = ((d, Inl e), n') \<and> shouldRetry e \<and> I n'"
  shows "\<exists>e w'. makeRequestWithRetry send rb 0 w = (Inl e, w') \<and>
           trace w' = trace w @ [Sent rb, Waited 1000, Sent rb, Waited 2000, Sent rb] \<and>
           clock w \<le> clock w' \<and> I (net w')"
proof -
  obtain d1 e1 n1 where s1: "send (net w) = ((d1, Inl e1), n1)" "shouldRetry e1" "I n1"
    using fails [OF inv] by blast
  define w1 where "w1 = delay (2 ^ 0 * 1000)
      (w\<lparr>clock := clock w + d1, trace := trace w @ [Sent rb], net := n1\<rparr>)"
  have n1: "net w1 = n1" by (simp add: w1_def delay_def)
  obtain d2 e2 n2 where s2: "send (net w1) = ((d2, Inl e2), n2)" "shouldRetry e2" "I n2"
    using fails [OF s1(3)] n1 by auto
  define w2 where "w2 = delay (2 ^ 1 * 1000)
      (w1\<lparr>clock := clock w1 + d2, trace := trace w1 @ [Sent rb], net := n2\<rparr>)"
  have n2: "net w2 = n2" by (simp add: w2_def delay_def)
  obtain d3 e3 n3 where s3: "send (net w2) = ((d3, Inl e3), n3)" "shouldRetry e3" "I n3"
    using fails [OF s2(3)] n2 by auto
  define w3 where "w3 = w2\<lparr>clock := clock w2 + d3, trace := trace w2 @ [Sent rb], net := n3\<rparr>"
  have "makeRequestWithRetry send rb 0 w = makeRequestWithRetry send rb 1 w1"
    unfolding w1_def using makeRequestWithRetry_retries [of send w d1 e1 n1 0 rb] s1
    by (simp add: maxRetries_def)
  also have "\<dots> = makeRequestWithRetry send rb 2 w2"
    unfolding w2_def using makeRequestWithRetry_retries [of send w1 d2 e2 n2 1 rb] s2
    by (simp add: maxRetries_def numeral_2_eq_2)
  also have "\<dots> = (Inl e3, w3)"
    unfolding w3_def using makeRequestWithRetry_gives_up [of send w2 d3 e3 n3 2 rb] s3
    by (simp add: maxRetries_def numeral_2_eq_2)
  finally have run: "makeRequestWithRetry send rb 0 w = (Inl e3, w3)" .
  have "trace w3 = trace w @ [Sent rb, Waited 1000, Sent rb, Waited 2000, Sent rb]"
    by (simp add: w3_def w2_def w1_def delay_def)
  moreover have "clock w \<le> clock w3"
    by (simp add: w3_def w2_def w1_def delay_def)
  moreover have "I (net w3)" using s3(3) by (simp add: w3_def)
  ultimately show ?thesis using run by blast
qed

lemma on_exception_result:
  "on_exception startTime stats w =
     (failure (Some (clock w - startTime))
        (mk_error (if clock w - startTime > 10000 then ''timeout'' else ''network_error'')
                  (if clock w - startTime > 10000 then ''Request timed out after 10 seconds''
                   else ''Network request failed'')),
      stats\<lparr>totalRequests := totalRequests stats + 1,
            totalResponseTime := totalResponseTime stats + (clock w - startTime),
            errorCount := errorCount stats + 1\<rparr>,
      w)"
  by (simp add: on_exception_def updateUsageStats_def Let_def)

lemma generateRoast_transport_throws:
  assumes "validateInput (Some img) = None"
    and "makeRequestWithRetry send (buildRequestBody img opts) 0 w = (Inl e, w')"
  shows "generateRoast send (Some img) opts stats w = on_exception (clock w) stats w'"
  using assms by (simp add: generateRoast_def)

subsection \<open>The transport of the application\<close>

lemma production_proxy_eq:
  "production_proxy = \<lparr>strategy = CUSTOM_PROXY, fallbackStrategies = [DIRECT]\<rparr>"
  by (simp add: production_proxy_def new_CorsProxy_def detectBestStrategy_def
      getDefaultFallbacks_def isCustomProxyAvailable_def)

lemma shouldRetry_all_failed: "shouldRetry (JsError (Some ''All proxy strategies failed''))"
  by (simp add: shouldRetry_def startsWith_def)

text \<open>The transport never hands a response that is not ok to the client.\<close>

lemma try_strategies_returns_ok:
  "try_strategies strategies t n = ((d, Inr response), n') \<Longrightarrow> ok response"
proof (induction strategies arbitrary: t n)
  case Nil
  then show ?case by simp
next
  case (Cons strat strategies)
  then show ?case
    by (auto split: prod.splits fetch_outcome.splits if_splits)
qed

lemma makeRequest_returns_ok:
  "makeRequest cp n = ((d, Inr response), n') \<Longrightarrow> ok response"
  unfolding makeRequest_def by (rule try_strategies_returns_ok)

lemma try_strategies_throws:
  "try_strategies strategies t n = ((d, Inl e), n') \<Longrightarrow>
     e = JsError (Some ''All proxy strategies failed'')"
proof (induction strategies arbitrary: t n)
  case Nil
  then show ?case by simp
next
  case (Cons strat strategies)
  then show ?case
    by (auto split: prod.splits fetch_outcome.splits if_splits)
qed

lemma fetch_failed:
  assumes "failed (snd (script n (fetches n)))"
  shows "\<exists>d out. fetch n = ((d, out), n\<lparr>fetches := fetches n + 1\<rparr>) \<and> failed out"
  using assms by (cases "script n (fetches n)") (simp add: fetch_def)

lemma makeRequest_all_fail:
  assumes "\<And>i. failed (snd (script n i))"
  shows "\<exists>d. makeRequest production_proxy n =
           ((d, Inl (JsError (Some ''All proxy strategies failed''))),
            n\<lparr>fetches := fetches n + 2\<rparr>)"
proof -
  obtain d1 out1 where f1: "fetch n = ((d1, out1), n\<lparr>fetches := fetches n + 1\<rparr>)" "failed out1"
    using fetch_failed [of n] assms by blast
  obtain d2 out2 where f2: "fetch (n\<lparr>fetches := fetches n + 1\<rparr>) =
      ((d2, out2), n\<lparr>fetches := fetches n + 2\<rparr>)" "failed out2"
    using fetch_failed [of "n\<lparr>fetches := fetches n + 1\<rparr>"] assms by auto
  show ?thesis
    using f1 f2
    by (cases out1; cases out2)
       (auto simp: production_proxy_eq makeRequest_def executeStrategy_def
           CUSTOM_PROXY_def DIRECT_def CORS_PROXY_def MOCK_def)
qed

lemma validateInput_sample: "validateInput (Some sample_image) = None"
  by (simp add: validateInput_def sample_image_def startsWith_def)

text \<open>
  The production proxy in a world where every \<^verbatim>\<open>fetch\<close> fails in the same way: each
  call of the transport tries both strategies and throws.
\<close>

lemma makeRequest_every_fetch_fails:
  assumes "failed out"
  shows "makeRequest production_proxy \<lparr>script = (\<lambda>i. (d, out)), fetches = k\<rparr> =
           ((2 * d, Inl (JsError (Some ''All proxy strategies failed''))),
            \<lparr>script = (\<lambda>i. (d, out)), fetches = k + 2\<rparr>)"
  using assms
  by (cases out)
     (simp_all add: production_proxy_eq makeRequest_def executeStrategy_def fetch_def
        CUSTOM_PROXY_def DIRECT_def CORS_PROXY_def MOCK_def)

lemma makeRequestWithRetry_every_fetch_fails:
  assumes "failed out"
  shows "makeRequestWithRetry (makeRequest production_proxy) rb 0 (every_fetch d out) =
           (Inl (JsError (Some ''All proxy strategies failed'')),
            \<lparr>clock = 6 * d + 3000,
             trace = [Sent rb, Waited 1000, Sent rb, Waited 2000, Sent rb],
             net = \<lparr>script = (\<lambda>i. (d, out)), fetches = 6\<rparr>\<rparr>)"
proof -
  let ?send = "makeRequest production_proxy"
  let ?n = "\<lambda>k. \<lparr>script = (\<lambda>i. (d, out)), fetches = k\<rparr>"
  let ?w1 = "\<lparr>clock = 2 * d + 1000, trace = [Sent rb, Waited 1000], net = ?n 2\<rparr>"
  let ?w2 = "\<lparr>clock = 4 * d + 3000, trace = [Sent rb, Waited 1000, Sent rb, Waited 2000],
              net = ?n 4\<rparr>"
  note step = makeRequest_every_fetch_fails [OF assms] shouldRetry_all_failed maxRetries_def
    delay_def
  have "makeRequestWithRetry ?send rb 0 (every_fetch d out) = makeRequestWithRetry ?send rb 1 ?w1"
    by (subst makeRequestWithRetry.simps) (simp add: every_fetch_def step del: add_2_eq_Suc' add_2_eq_Suc)
  also have "\<dots> = makeRequestWithRetry ?send rb 2 ?w2"
    by (subst makeRequestWithRetry.simps) (simp add: step numeral_2_eq_2 [symmetric] ac_simps del: add_2_eq_Suc' add_2_eq_Suc)
  also have "\<dots> = (Inl (JsError (Some ''All proxy strategies failed'')),
             \<lparr>clock = 6 * d + 3000,
              trace = [Sent rb, Waited 1000, Sent rb, Waited 2000, Sent rb], net = ?n 6\<rparr>)"
    by (subst makeRequestWithRetry.simps) (simp add: step numeral_2_eq_2 [symmetric] ac_simps del: add_2_eq_Suc' add_2_eq_Suc)
  finally show ?thesis .
qed

lemma generate_every_fetch_fails:
  assumes "validateInput (Some img) = None" and "failed out"
  shows "generate production_proxy (Some img) opts stats (every_fetch d out) =
           on_exception 0 stats
             \<lparr>clock = 6 * d + 3000,
              trace = [Sent (buildRequestBody img opts), Waited 1000,
                       Sent (buildRequestBody img opts), Waited 2000,
                       Sent (buildRequestBody img opts)],
              net = \<lparr>script = (\<lambda>i. (d, out)), fetches = 6\<rparr>\<rparr>"
  using generateRoast_transport_throws [OF assms(1) makeRequestWithRetry_every_fetch_fails [OF assms(2)]]
  by (simp add: generate_def every_fetch_def)

lemma makeRequest_first_fetch_ok:
  assumes "ok response"
  shows "makeRequest production_proxy \<lparr>script = (\<lambda>i. (d, Resolves response)), fetches = k\<rparr> =
           ((d, Inr response), \<lparr>script = (\<lambda>i. (d, Resolves response)), fetches = k + 1\<rparr>)"
  using assms
  by (simp add: production_proxy_eq makeRequest_def executeStrategy_def fetch_def
        CUSTOM_PROXY_def DIRECT_def CORS_PROXY_def MOCK_def)

lemma makeRequestWithRetry_first_fetch_ok:
  assumes "ok response"
  shows "makeRequestWithRetry (makeRequest production_proxy) rb 0 (every_fetch d (Resolves response)) =
           (Inr response,
            \<lparr>clock = d, trace = [Sent rb],
             net = \<lparr>script = (\<lambda>i. (d, Resolves response)), fetches = 1\<rparr>\<rparr>)"
  using makeRequestWithRetry_returns [of "makeRequest production_proxy"
      "every_fetch d (Resolves response)" d response
      "\<lparr>script = (\<lambda>i. (d, Resolves response)), fetches = 1\<rparr>" rb 0]
    makeRequest_first_fetch_ok [OF assms, of d 0]
  by (simp add: every_fetch_def)

subsection \<open>The retry bound\<close>

text \<open>
  Claim C1, as stated, ends every run of three failed attempts with a failure of kind
  \<^verbatim>\<open>network_error\<close>. When each \<^verbatim>\<open>fetch\<close> takes two seconds to fail, the three attempts
  and the two delays take fifteen seconds, and the \<^verbatim>\<open>catch\<close> block of \<^verbatim>\<open>generateRoast\<close>
  returns kind \<^verbatim>\<open>timeout\<close>.
\<close>

theorem slow_failures_counterexample:
  "fst (makeRequest production_proxy (net (every_fetch 2000 Rejects)))
     = (4000, Inl (JsError (Some ''All proxy strategies failed''))) \<and>
   shouldRetry (JsError (Some ''All proxy strategies failed'')) \<and>
   trace (snd (snd (generate production_proxy (Some sample_image) sample_options new_usageStats
                      (every_fetch 2000 Rejects))))
     = [Sent (buildRequestBody sample_image sample_options), Waited 1000,
        Sent (buildRequestBody sample_image sample_options), Waited 2000,
        Sent (buildRequestBody sample_image sample_options)] \<and>
   fst (generate production_proxy (Some sample_image) sample_options new_usageStats
          (every_fetch 2000 Rejects))
     = failure (Some 15000) (mk_error ''timeout'' ''Request timed out after 10 seconds'')"
  using makeRequest_every_fetch_fails [of Rejects 2000 0]
  by (simp add: generate_every_fetch_fails [OF validateInput_sample] on_exception_result
      shouldRetry_all_failed)
     (simp add: every_fetch_def)

text \<open>
  Claim C1, amended: if every call of the transport throws an error that \<^verbatim>\<open>shouldRetry\<close>
  accepts (\<open>I\<close> is any property of the transport's state that holds at the start and
  that each failing call keeps), a call of \<^verbatim>\<open>generateRoast\<close> with a valid image makes
  exactly three calls of the transport, each with the request body built from its
  arguments, waits 1000 ms before the second and 2000 ms before the third, and returns a
  failure that carries the elapsed time; its kind is \<^verbatim>\<open>network_error\<close> when the elapsed
  time is at most 10000 ms and \<^verbatim>\<open>timeout\<close> when it is more.
\<close>

theorem retry_bound:
  fixes send :: "'n transport"
  assumes valid: "validateInput (Some img) = None"
    and inv: "I (net w)"
    and fails: "\<And>n. I n \<Longrightarrow> \<exists>d e n'. send n = ((d, Inl e), n') \<and> shouldRetry e \<and> I n'"
    and run: "generateRoast send (Some img) opts stats w = (res, stats', w')"
  shows "trace w' = trace w @ [Sent (buildRequestBody img opts), Waited 1000,
                               Sent (buildRequestBody img opts), Waited 2000,
                               Sent (buildRequestBody img opts)] \<and>
         success res = False \<and>
         processingTimeMs res = Some (clock w' - clock w) \<and>
         map_option etype (error res) =
           Some (if clock w' - clock w > 10000 then ''timeout'' else ''network_error'')"
proof -
  obtain e w3 where r: "makeRequestWithRetry send (buildRequestBody img opts) 0 w = (Inl e, w3)"
    and t: "trace w3 = trace w @ [Sent (buildRequestBody img opts), Waited 1000,
                               Sent (buildRequestBody img opts), Waited 2000,
                               Sent (buildRequestBody img opts)]"
    using makeRequestWithRetry_exhausted [of I w send "buildRequestBody img opts", OF inv fails]
    by blast
  have "generateRoast send (Some img) opts stats w = on_exception (clock w) stats w3"
    by (rule generateRoast_transport_throws [OF valid r])
  with run have "(res, stats', w') = on_exception (clock w) stats w3" by simp
  then have "w' = w3" and "res = failure (Some (clock w3 - clock w))
        (mk_error (if clock w3 - clock w > 10000 then ''timeout'' else ''network_error'')
                  (if clock w3 - clock w > 10000 then ''Request timed out after 10 seconds''
                   else ''Network request failed''))"
    by (simp_all add: on_exception_result)
  then show ?thesis using t by (simp add: failure_def mk_error_def)
qed

text \<open>
  The amended claim on the transport of the application, in a world where every
  \<^verbatim>\<open>fetch\<close> rejects after 100 ms.
\<close>

theorem retry_bound_witness:
  "validateInput (Some sample_image) = None \<and>
   shouldRetry (JsError (Some ''All proxy strategies failed'')) \<and>
   trace (snd (snd (generate production_proxy (Some sample_image) sample_options new_usageStats
                      (every_fetch 100 Rejects))))
     = [Sent (buildRequestBody sample_image sample_options), Waited 1000,
        Sent (buildRequestBody sample_image sample_options), Waited 2000,
        Sent (buildRequestBody sample_image sample_options)] \<and>
   map_option etype (error (fst (generate production_proxy (Some sample_image) sample_options
                      new_usageStats (every_fetch 100 Rejects)))) = Some ''network_error''"
proof -
  define X where "X = generate production_proxy (Some sample_image) sample_options new_usageStats
                      (every_fetch 100 Rejects)"
  define I where "I = (\<lambda>n::network. \<forall>i. failed (snd (script n i)))"
  have inv: "I (net (every_fetch 100 Rejects))"
    by (simp add: I_def every_fetch_def)
  have fails: "\<exists>d e n'. makeRequest production_proxy n = ((d, Inl e), n') \<and> shouldRetry e \<and> I n'"
    if "I n" for n
    using makeRequest_all_fail [of n] that shouldRetry_all_failed by (auto simp: I_def)
  have run: "generateRoast (makeRequest production_proxy) (Some sample_image) sample_options
               new_usageStats (every_fetch 100 Rejects) = (fst X, fst (snd X), snd (snd X))"
    by (simp add: X_def generate_def)
  have elapsed: "clock (snd (snd X)) = 3600" "clock (every_fetch 100 Rejects) = 0"
    unfolding X_def
    by (simp_all add: generate_every_fetch_fails [OF validateInput_sample] on_exception_result)
       (simp add: every_fetch_def)
  show ?thesis
    using retry_bound [of sample_image I "every_fetch 100 Rejects" "makeRequest production_proxy",
                       OF validateInput_sample inv fails run]
      validateInput_sample shouldRetry_all_failed elapsed
    by (simp add: X_def every_fetch_def)
qed

section \<open>Responses that are not ok\<close>

text \<open>
  Claim C2 says that an HTTP 401 answer ends the call after one attempt with the policy
  failure. \<^verbatim>\<open>makeRequest\<close> returns a response only when it is ok (lemma
  \<open>makeRequest_returns_ok\<close>); a 401 answer makes it try the next strategy and throw
  \<^verbatim>\<open>All proxy strategies failed\<close>, a message without \<^verbatim>\<open>401\<close>, which \<^verbatim>\<open>shouldRetry\<close>
  accepts. So the client makes three attempts (six requests) and reports a
  \<^verbatim>\<open>network_error\<close>.
\<close>

theorem unauthorized_is_retried:
  "trace (snd (snd (generate production_proxy (Some sample_image) sample_options new_usageStats
                      (every_fetch 50 (Resolves (rejection_of 401 ''invalid_api_key''))))))
     = [Sent (buildRequestBody sample_image sample_options), Waited 1000,
        Sent (buildRequestBody sample_image sample_options), Waited 2000,
        Sent (buildRequestBody sample_image sample_options)] \<and>
   fetches (net (snd (snd (generate production_proxy (Some sample_image) sample_options
                      new_usageStats
                      (every_fetch 50 (Resolves (rejection_of 401 ''invalid_api_key''))))))) = 6 \<and>
   fst (generate production_proxy (Some sample_image) sample_options new_usageStats
          (every_fetch 50 (Resolves (rejection_of 401 ''invalid_api_key''))))
     = failure (Some 3300) (mk_error ''network_error'' ''Network request failed'')"
  by (simp add: generate_every_fetch_fails [OF validateInput_sample] on_exception_result
      rejection_of_def)

text \<open>
  Handed a response that is not ok by its first call of the transport, \<^verbatim>\<open>generateRoast\<close>
  makes no second call and returns what \<^verbatim>\<open>processErrorResponse\<close> makes of the response.
\<close>

lemma generateRoast_classifies_response:
  assumes "validateInput (Some img) = None"
    and "send (net w) = ((d, Inr response), n')"
    and "\<not> ok response"
    and "body response = Json data"
    and "processErrorResponse response (Some data) d = Some res"
  shows "generateRoast send (Some img) opts stats w =
           (res,
            stats\<lparr>totalRequests := totalRequests stats + 1,
                  totalResponseTime := totalResponseTime stats + d,
                  errorCount := errorCount stats + 1\<rparr>,
            w\<lparr>clock := clock w + d, trace := trace w @ [Sent (buildRequestBody img opts)],
              net := n'\<rparr>)"
  using assms
    makeRequestWithRetry_returns [of send w d response n' "buildRequestBody img opts" 0]
  by (simp add: generateRoast_def updateUsageStats_def)

text \<open>What \<^verbatim>\<open>processErrorResponse\<close> makes of the status of a response handed to it.\<close>

lemma processErrorResponse_classifies:
  "(status response = 429 \<longrightarrow>
      processErrorResponse response (Some d) t =
        Some (failure (Some t) (mk_error_retry ''rate_limit''
               ''Rate limit exceeded. Please wait before trying again.'' 60))) \<and>
   (status response = 401 \<longrightarrow>
      processErrorResponse response (Some d) t =
        Some (failure (Some t) (mk_error ''api_error'' ''Invalid API key provided''))) \<and>
   (status response = 400 \<and> error_code d = Some ''content_policy_violation'' \<longrightarrow>
      processErrorResponse response (Some d) t =
        Some (failure (Some t) (mk_error ''content_policy'' ''Content violates safety guidelines''))) \<and>
   (status response = 400 \<and> error_code d \<noteq> Some ''content_policy_violation'' \<longrightarrow>
      processErrorResponse response (Some d) t =
        Some (failure (Some t) (mk_error ''api_error'' ''Bad request to API''))) \<and>
   (status response = 503 \<longrightarrow>
      processErrorResponse response (Some d) t =
        Some (failure (Some t) (mk_error_retry ''service_unavailable''
               ''OpenAI service temporarily unavailable'' 30))) \<and>
   (status response \<notin> {429, 401, 400, 503} \<longrightarrow>
      processErrorResponse response (Some d) t =
        Some (failure (Some t) (mk_error ''api_error'' ''Unknown API error occurred'')))"
  by (simp add: processErrorResponse_def)

text \<open>
  Claim C8 says that \<^verbatim>\<open>generateRoast\<close> classifies a response that is not ok by its
  status. \<^verbatim>\<open>processErrorResponse\<close> does so for a response handed to it (the lemmas above
  and the first part below), but the transport never hands it one: an HTTP 429 or 503
  answer reaches the client as a thrown error and ends as a \<^verbatim>\<open>network_error\<close> without
  \<^verbatim>\<open>retryAfterSeconds\<close>.
\<close>

theorem rate_limit_not_classified:
  "processErrorResponse (rejection_of 429 ''rate_limit_exceeded'') None 50
     = Some (failure (Some 50)
               (mk_error_retry ''rate_limit''
                  ''Rate limit exceeded. Please wait before trying again.'' 60)) \<and>
   fst (generate production_proxy (Some sample_image) sample_options new_usageStats
          (every_fetch 50 (Resolves (rejection_of 429 ''rate_limit_exceeded''))))
     = failure (Some 3300) (mk_error ''network_error'' ''Network request failed'') \<and>
   fst (generate production_proxy (Some sample_image) sample_options new_usageStats
          (every_fetch 50 (Resolves (rejection_of 503 ''service_unavailable''))))
     = failure (Some 3300) (mk_error ''network_error'' ''Network request failed'')"
  by (simp add: generate_every_fetch_fails [OF validateInput_sample] on_exception_result
      rejection_of_def processErrorResponse_def)

section \<open>The shape of a result\<close>

text \<open>Every result has exactly one variant populated.\<close>

lemma failure_one_variant: "one_variant (failure t e)"
  by (simp add: one_variant_def failure_def)

lemma on_exception_one_variant: "one_variant (fst (on_exception startTime stats w))"
  by (simp add: on_exception_result failure_one_variant)

lemma processSuccessResponse_one_variant:
  "processSuccessResponse data t = Some res \<Longrightarrow> one_variant res"
  by (auto simp: processSuccessResponse_def failure_def one_variant_def Let_def
      split: option.splits list.splits content_field.splits if_splits)

lemma processErrorResponse_one_variant:
  "processErrorResponse response errorData t = Some res \<Longrightarrow> one_variant res"
  by (auto simp: processErrorResponse_def failure_one_variant split: option.splits if_splits)

lemma generateRoast_one_variant:
  "one_variant (fst (generateRoast send img opts stats w))"
proof (cases "validateInput img")
  case (Some e)
  then show ?thesis by (simp add: generateRoast_def failure_one_variant)
next
  case None
  let ?rb = "buildRequestBody (case img of Some i \<Rightarrow> i | None \<Rightarrow> []) opts"
  obtain reply w1 where m: "makeRequestWithRetry send ?rb 0 w = (reply, w1)"
    by (cases "makeRequestWithRetry send ?rb 0 w")
  show ?thesis
  proof (cases reply)
    case (Inl e)
    then show ?thesis using None m by (simp add: generateRoast_def on_exception_one_variant)
  next
    case (Inr response)
    show ?thesis
    proof (cases "ok response")
      case False
      let ?errorData = "case body response of
           Unparseable \<Rightarrow> Some \<lparr>choices = None, usage = UsageAbsent, error_code = None\<rparr>
         | JsonNull \<Rightarrow> None | Json data \<Rightarrow> Some data"
      show ?thesis
      proof (cases "processErrorResponse response ?errorData (clock w1 - clock w)")
        case None': None
        then show ?thesis
          using None m Inr False by (simp add: generateRoast_def on_exception_one_variant)
      next
        case (Some er)
        then show ?thesis
          using None m Inr False processErrorResponse_one_variant [OF Some]
          by (simp add: generateRoast_def)
      qed
    next
      case True
      show ?thesis
      proof (cases "body response")
        case Unparseable
        then show ?thesis
          using None m Inr True by (simp add: generateRoast_def on_exception_one_variant)
      next
        case JsonNull
        then show ?thesis
          using None m Inr True by (simp add: generateRoast_def on_exception_one_variant)
      next
        case (Json data)
        show ?thesis
        proof (cases "processSuccessResponse data (clock w1 - clock w)")
          case None': None
          then show ?thesis
            using None m Inr True Json by (simp add: generateRoast_def on_exception_one_variant)
        next
          case (Some r)
          obtain b st where u: "updateUsageStats (clock w1 - clock w) True (usage data) stats = (b, st)"
            by (cases "updateUsageStats (clock w1 - clock w) True (usage data) stats")
          show ?thesis
            using None m Inr True Json Some u processSuccessResponse_one_variant [OF Some]
            by (cases b) (simp_all add: generateRoast_def on_exception_one_variant)
        qed
      qed
    qed
  qed
qed

text \<open>
  Claim C5 says that every result carries the elapsed time, with exactly one variant
  populated (the lemma above). The result of a rejected input is built before any time is
  taken and has no \<^verbatim>\<open>processingTimeMs\<close>, and neither has the \<^verbatim>\<open>invalid_response\<close> result
  for an ok response without \<^verbatim>\<open>choices\<close>.
\<close>

theorem rejected_input_has_no_elapsed_time:
  "generateRoast send None opts stats w
     = (failure None (mk_error ''invalid_input'' ''No image provided''), stats, w) \<and>
   processingTimeMs (fst (generateRoast send None opts stats w)) = None \<and>
   processingTimeMs
     (fst (generate production_proxy (Some sample_image) sample_options new_usageStats
             (every_fetch 120
                (Resolves \<lparr>ok = True, status = 200,
                            body = Json \<lparr>choices = None, usage = UsageAbsent,
                                         error_code = None\<rparr>\<rparr>)))) = None"
proof -
  have "processingTimeMs
     (fst (generate production_proxy (Some sample_image) sample_options new_usageStats
             (every_fetch 120
                (Resolves \<lparr>ok = True, status = 200,
                            body = Json \<lparr>choices = None, usage = UsageAbsent,
                                         error_code = None\<rparr>\<rparr>)))) = None"
    using validateInput_sample
    by (simp add: generate_def generateRoast_def makeRequestWithRetry_first_fetch_ok
        processSuccessResponse_def updateUsageStats_def failure_def)
  then show ?thesis
    by (simp add: generateRoast_def validateInput_def failure_def)
qed

section \<open>Sanitising the completion text\<close>

lemma set_tl_subset: "set (tl xs) \<subseteq> set xs"
  by (cases xs) auto

lemma set_dropWhile_subset: "set (dropWhile P xs) \<subseteq> set xs"
  by (induction xs) auto

lemma strip_tags_subset: "set (strip_tags s) \<subseteq> set s"
proof (induction s rule: strip_tags.induct)
  case 1
  then show ?case by simp
next
  case (2 c cs)
  show ?case
  proof (cases "c = CHR ''<'' \<and> CHR ''>'' \<in> set cs")
    case True
    have "set (strip_tags (c # cs)) = set (strip_tags (tl (dropWhile (\<lambda>x. x \<noteq> CHR ''>'') cs)))"
      using True by simp
    also have "\<dots> \<subseteq> set (tl (dropWhile (\<lambda>x. x \<noteq> CHR ''>'') cs))"
      by (rule 2(1) [OF True])
    also have "\<dots> \<subseteq> set (dropWhile (\<lambda>x. x \<noteq> CHR ''>'') cs)"
      by (rule set_tl_subset)
    also have "\<dots> \<subseteq> set cs"
      by (rule set_dropWhile_subset)
    also have "\<dots> \<subseteq> set (c # cs)"
      by auto
    finally show ?thesis .
  next
    case False
    have "set (strip_tags (c # cs)) = insert c (set (strip_tags cs))"
      using False by auto
    with 2(2) [OF False] show ?thesis by auto
  qed
qed

text \<open>No tag sequence is left in a stripped text.\<close>

lemma strip_tags_no_tag: "\<not> has_tag (strip_tags s)"
proof (induction s rule: strip_tags.induct)
  case 1
  then show ?case by simp
next
  case (2 c cs)
  show ?case
  proof (cases "c = CHR ''<'' \<and> CHR ''>'' \<in> set cs")
    case True
    with 2(1) show ?thesis by simp
  next
    case False
    with 2(2) strip_tags_subset [of cs] show ?thesis by auto
  qed
qed

text \<open>A text without \<^verbatim>\<open><\<close> is kept, and a tag is cut out of the text around it.\<close>

lemma strip_tags_plain: "CHR ''<'' \<notin> set s \<Longrightarrow> strip_tags s = s"
  by (induction s) auto

lemma strip_tags_cuts_tag:
  assumes "CHR ''<'' \<notin> set before" and "CHR ''>'' \<notin> set inside"
  shows "strip_tags (before @ CHR ''<'' # inside @ CHR ''>'' # after) = before @ strip_tags after"
  using assms
proof (induction before)
  case Nil
  have "dropWhile (\<lambda>x. x \<noteq> CHR ''>'') (inside @ CHR ''>'' # after) = CHR ''>'' # after"
    using Nil(2) by (auto simp: dropWhile_append3)
  then show ?case by simp
next
  case (Cons c before)
  then show ?case by auto
qed

text \<open>
  The text of a success is the trimmed content with the tags stripped: it has no tag
  sequence left, and it is empty when the content consists of tags only.
\<close>

lemma processSuccessResponse_success:
  assumes "processSuccessResponse data t = Some res" and "success res"
  shows "\<exists>s rest. choices data = Some (Content s # rest) \<and> trim s \<noteq> [] \<and>
             roastText res = Some (strip_tags (trim s)) \<and> \<not> has_tag (strip_tags (trim s))"
  using assms
  by (auto simp: processSuccessResponse_def failure_def Let_def strip_tags_no_tag
      split: option.splits list.splits content_field.splits if_splits)

text \<open>
  A body without the content gives \<^verbatim>\<open>invalid_response\<close>, and a content of white space
  only gives \<^verbatim>\<open>empty_response\<close>.
\<close>

lemma processSuccessResponse_missing:
  assumes "choices data = None \<or> choices data = Some [] \<or> choices data = Some (NoContent # rest)"
  shows "processSuccessResponse data t =
           Some (failure None (mk_error ''invalid_response'' ''Invalid API response format''))"
  using assms by (auto simp: processSuccessResponse_def)

lemma processSuccessResponse_blank:
  assumes "choices data = Some (Content s # rest)" and "s \<noteq> []" and "trim s = []"
  shows "processSuccessResponse data t =
           Some (failure None (mk_error ''empty_response'' ''Empty roast content received''))"
  using assms by (simp add: processSuccessResponse_def)

text \<open>
  Claim C9 says that a text that is empty after trimming gives kind \<^verbatim>\<open>empty_response\<close>
  and that the text of a success is not empty. An empty \<^verbatim>\<open>content\<close> is falsy and gives
  \<^verbatim>\<open>invalid_response\<close>; and the emptiness test runs before the tags are stripped, so
  a text made of tags only gives a success with an empty text.
\<close>

theorem empty_content_is_invalid_response:
  "fst (generate production_proxy (Some sample_image) sample_options new_usageStats
          (every_fetch 120 (Resolves (completion_of [] 12))))
     = failure None (mk_error ''invalid_response'' ''Invalid API response format'') \<and>
   fst (generate production_proxy (Some sample_image) sample_options new_usageStats
          (every_fetch 120 (Resolves (completion_of ''<b></b>'' 12))))
     = \<lparr>success = True, roastText = Some [], processingTimeMs = Some 120, error = None\<rparr>"
proof -
  have ok: "ok (completion_of c t)" for c t
    by (simp add: completion_of_def)
  show ?thesis
    using validateInput_sample
    by (simp add: generate_def generateRoast_def makeRequestWithRetry_first_fetch_ok [OF ok])
       (simp add: completion_of_def processSuccessResponse_def updateUsageStats_def trim_def
          is_white_space_def every_fetch_def)
qed

section \<open>Usage accounting\<close>











text \<open>
  The number behind a cost after a success: whatever function computes
  \<^verbatim>\<open>c + t * 0.00001\<close> in the arithmetic of the code, the new cost is its value at the old
  cost and the tokens.
\<close>

lemma cost_value_after_success:
  assumes "estimatedCost stats' = CostPlus (estimatedCost stats) t"
  shows "cost_value plus_rate (estimatedCost stats') =
           plus_rate (cost_value plus_rate (estimatedCost stats)) t"
  using assms by simp





end
